theory Spec2Isabelle
  imports Main "HOL-Library.Word"
begin

section \<open>Structural values of the contract parser\<close>

text \<open>
  \<^verbatim>\<open>contract-parser.ts\<close> reduces expressions of a contract file to plain JavaScript
  values typed \<^verbatim>\<open>any\<close>: \<^verbatim>\<open>null\<close>, strings, numbers, booleans and objects. The value
  \<^verbatim>\<open>undefined\<close> of a missing property is \<open>None\<close> of an option.

  A number is an IEEE 754 double, given by its 64 bits. Strings are lists of characters,
  with case conversion on the ASCII letters.

  An object is the list of its own properties in creation order together with its
  prototype. The objects the parser creates have \<^verbatim>\<open>Object.prototype\<close> as prototype until
  an assignment to \<^verbatim>\<open>__proto__\<close> changes it. Reading a property follows the prototype
  chain, so a read can also give \<^verbatim>\<open>Object.prototype\<close> itself (\<open>JObjectPrototype\<close>) or one
  of its built-in functions (\<open>JFunction\<close>).
\<close>

type_synonym double = "64 word"

datatype jsval =
    JNull
  | JString string
  | JNumber double
  | JBoolean bool
  | JObject "(string \<times> jsval) list" jsval
  | JObjectPrototype
  | JFunction string

type_synonym jsprop = "jsval option"

text \<open>The doubles \<open>+0\<close> and \<open>-0\<close>, and the NaNs.\<close>

definition is_zero :: "double \<Rightarrow> bool" where
  "is_zero d = (take_bit 63 d = 0)"

definition is_nan :: "double \<Rightarrow> bool" where
  "is_nan d = (take_bit 11 (drop_bit 52 d) = 2047 \<and> take_bit 52 d \<noteq> 0)"

text \<open>JavaScript truthiness, as used by \<^verbatim>\<open>if (v)\<close>, \<^verbatim>\<open>!v\<close> and \<^verbatim>\<open>a || b\<close>.\<close>

fun truthy :: "jsval \<Rightarrow> bool" where
  "truthy JNull = False"
| "truthy (JString s) = (s \<noteq> [])"
| "truthy (JNumber d) = (\<not> is_zero d \<and> \<not> is_nan d)"
| "truthy (JBoolean b) = b"
| "truthy (JObject own proto) = True"
| "truthy JObjectPrototype = True"
| "truthy (JFunction name) = True"

fun truthy_prop :: "jsprop \<Rightarrow> bool" where
  "truthy_prop None = False"
| "truthy_prop (Some v) = truthy v"

text \<open>\<^verbatim>\<open>!v\<close>.\<close>

definition falsy :: "jsval \<Rightarrow> bool" where
  "falsy v = (\<not> truthy v)"

text \<open>\<^verbatim>\<open>a || b\<close> on possibly undefined operands.\<close>

definition js_or :: "jsprop \<Rightarrow> jsprop \<Rightarrow> jsprop" where
  "js_or a b = (if truthy_prop a then a else b)"

text \<open>\<^verbatim>\<open>a || lit\<close> where the right operand is a literal value.\<close>

definition js_or_val :: "jsprop \<Rightarrow> jsval \<Rightarrow> jsval" where
  "js_or_val a d = (case a of Some v \<Rightarrow> (if truthy v then v else d) | None \<Rightarrow> d)"

text \<open>\<^verbatim>\<open>typeof v === 'object' && v !== null\<close>; the type of a function is \<^verbatim>\<open>'function'\<close>.\<close>

fun is_object :: "jsval \<Rightarrow> bool" where
  "is_object (JObject own proto) = True"
| "is_object JObjectPrototype = True"
| "is_object v = False"

subsection \<open>Reading properties\<close>

text \<open>
  The own properties of \<^verbatim>\<open>Object.prototype\<close> are eleven functions and the accessor
  \<^verbatim>\<open>__proto__\<close>, whose getter gives the prototype of the object the read started from.
  None of them is enumerable, and the prototype of \<^verbatim>\<open>Object.prototype\<close> is \<^verbatim>\<open>null\<close>.
\<close>

definition object_prototype_functions :: "string list" where
  "object_prototype_functions =
     [''constructor'', ''__defineGetter__'', ''__defineSetter__'', ''hasOwnProperty'',
      ''__lookupGetter__'', ''__lookupSetter__'', ''isPrototypeOf'',
      ''propertyIsEnumerable'', ''toString'', ''valueOf'', ''toLocaleString'']"

fun prototype_of :: "jsval \<Rightarrow> jsval" where
  "prototype_of (JObject own proto) = proto"
| "prototype_of v = JNull"

fun own_properties :: "jsval \<Rightarrow> (string \<times> jsval) list" where
  "own_properties (JObject own proto) = own"
| "own_properties v = []"

text \<open>
  The property \<open>k\<close> on the prototype chain from \<open>v\<close> upwards, for a read that started
  at an object with prototype \<open>receiver_proto\<close>.
\<close>

fun lookup_chain :: "jsval \<Rightarrow> jsval \<Rightarrow> string \<Rightarrow> jsprop" where
  "lookup_chain receiver_proto (JObject own proto) k =
     (case map_of own k of
        Some v \<Rightarrow> Some v
      | None \<Rightarrow> lookup_chain receiver_proto proto k)"
| "lookup_chain receiver_proto JObjectPrototype k =
     (if k = ''__proto__'' then Some receiver_proto
      else if k \<in> set object_prototype_functions then Some (JFunction k)
      else None)"
| "lookup_chain receiver_proto v k = None"

text \<open>
  \<^verbatim>\<open>obj[k]\<close> for an object; \<^verbatim>\<open>k in obj\<close> holds when the result is not \<open>None\<close>. On a
  string, a number or a boolean the code reads one property only, \<^verbatim>\<open>pathPrefix\<close>, which
  these values do not have.
\<close>

definition get_prop :: "jsval \<Rightarrow> string \<Rightarrow> jsprop" where
  "get_prop obj k = lookup_chain (prototype_of obj) obj k"

subsection \<open>Writing properties\<close>

text \<open>
  \<^verbatim>\<open>Map.prototype.set\<close>, and a write to an own property of an object: an existing key
  keeps its place and takes the new value, a new key goes to the end.
\<close>

fun set_entry :: "string \<Rightarrow> 'v \<Rightarrow> (string \<times> 'v) list \<Rightarrow> (string \<times> 'v) list" where
  "set_entry k v [] = [(k, v)]"
| "set_entry k v ((k', v') # kvs) =
     (if k' = k then (k, v) # kvs else (k', v') # set_entry k v kvs)"

text \<open>
  Whether a write to \<^verbatim>\<open>__proto__\<close> that found no own property reaches the setter of
  \<^verbatim>\<open>Object.prototype\<close> on the chain from \<open>v\<close> upwards: an own data property of that
  name on the way, or the end of the chain, stops it.
\<close>

fun reaches_setter :: "jsval \<Rightarrow> bool" where
  "reaches_setter (JObject own proto) =
     (if ''__proto__'' \<in> fst ` set own then False else reaches_setter proto)"
| "reaches_setter JObjectPrototype = True"
| "reaches_setter v = False"

text \<open>The setter of \<^verbatim>\<open>__proto__\<close> takes an object or \<^verbatim>\<open>null\<close> and ignores any other value.\<close>

fun object_or_null :: "jsval \<Rightarrow> bool" where
  "object_or_null JNull = True"
| "object_or_null (JObject own proto) = True"
| "object_or_null JObjectPrototype = True"
| "object_or_null (JFunction name) = True"
| "object_or_null v = False"

text \<open>
  \<^verbatim>\<open>obj[k] = v\<close> on an object the parser is building. The other properties on the chain
  are writable data properties, so every other write creates or updates an own property.
\<close>

fun set_prop :: "jsval \<Rightarrow> string \<Rightarrow> jsval \<Rightarrow> jsval" where
  "set_prop (JObject own proto) k v =
     (if k = ''__proto__'' \<and> ''__proto__'' \<notin> fst ` set own \<and> reaches_setter proto
      then (if object_or_null v then JObject own v else JObject own proto)
      else JObject (set_entry k v own) proto)"
| "set_prop obj k v = obj"

text \<open>An object literal of the parser's own code, \<^verbatim>\<open>{ k1: v1, ... }\<close>.\<close>

definition new_object :: "(string \<times> jsval) list \<Rightarrow> jsval" where
  "new_object own = JObject own JObjectPrototype"

subsection \<open>Property order of objects\<close>

text \<open>
  \<^verbatim>\<open>Object.entries\<close> and \<^verbatim>\<open>Object.assign\<close> enumerate the own properties with the
  array-index keys first, in ascending numeric order, and the other string keys after
  them in creation order. An array index is the canonical decimal form of an integer
  below \<open>2^32 - 1\<close>.
\<close>

definition digit_val :: "char \<Rightarrow> nat option" where
  "digit_val c = map_of [(CHR ''0'', 0), (CHR ''1'', 1), (CHR ''2'', 2), (CHR ''3'', 3),
     (CHR ''4'', 4), (CHR ''5'', 5), (CHR ''6'', 6), (CHR ''7'', 7), (CHR ''8'', 8),
     (CHR ''9'', 9)] c"

fun digits_val :: "nat \<Rightarrow> string \<Rightarrow> nat option" where
  "digits_val acc [] = Some acc"
| "digits_val acc (c # cs) =
     (case digit_val c of None \<Rightarrow> None | Some d \<Rightarrow> digits_val (10 * acc + d) cs)"

definition array_index :: "string \<Rightarrow> nat option" where
  "array_index k =
     (if k = [] then None
      else if hd k = CHR ''0'' \<and> tl k \<noteq> [] then None
      else (case digits_val 0 k of
              None \<Rightarrow> None
            | Some n \<Rightarrow> if n < 4294967295 then Some n else None))"

definition object_entries :: "(string \<times> jsval) list \<Rightarrow> (string \<times> jsval) list" where
  "object_entries kvs =
     sort_key (\<lambda>(k, v). the (array_index k)) (filter (\<lambda>(k, v). array_index k \<noteq> None) kvs)
     @ filter (\<lambda>(k, v). array_index k = None) kvs"

text \<open>
  \<^verbatim>\<open>Object.assign(target, source)\<close> for a truthy source: it writes to the target the own
  enumerable properties of an object, the indexed characters of a string, nothing for a
  number or a boolean.
\<close>

fun string_of_nat :: "nat \<Rightarrow> string" where
  "string_of_nat n =
     (if n < 10 then [''0123456789'' ! n]
      else string_of_nat (n div 10) @ [''0123456789'' ! (n mod 10)])"

fun string_entries :: "nat \<Rightarrow> string \<Rightarrow> (string \<times> jsval) list" where
  "string_entries i [] = []"
| "string_entries i (c # cs) = (string_of_nat i, JString [c]) # string_entries (Suc i) cs"

fun source_entries :: "jsval \<Rightarrow> (string \<times> jsval) list" where
  "source_entries (JObject own proto) = object_entries own"
| "source_entries (JString s) = string_entries 0 s"
| "source_entries v = []"

definition object_assign :: "jsval \<Rightarrow> jsval \<Rightarrow> jsval" where
  "object_assign target source =
     foldl (\<lambda>obj (k, v). set_prop obj k v) target (source_entries source)"

subsection \<open>String operations\<close>

definition toUpperCase :: "string \<Rightarrow> string" where
  "toUpperCase s =
     map (\<lambda>c. case map_of (zip ''abcdefghijklmnopqrstuvwxyz'' ''ABCDEFGHIJKLMNOPQRSTUVWXYZ'') c of
                 Some u \<Rightarrow> u | None \<Rightarrow> c) s"

definition toLowerCase :: "string \<Rightarrow> string" where
  "toLowerCase s =
     map (\<lambda>c. case map_of (zip ''ABCDEFGHIJKLMNOPQRSTUVWXYZ'' ''abcdefghijklmnopqrstuvwxyz'') c of
                 Some l \<Rightarrow> l | None \<Rightarrow> c) s"

definition startsWith :: "string \<Rightarrow> string \<Rightarrow> bool" where
  "startsWith s p = (take (length p) s = p)"

definition endsWith :: "string \<Rightarrow> string \<Rightarrow> bool" where
  "endsWith s p = (length p \<le> length s \<and> drop (length s - length p) s = p)"

section \<open>Path composition\<close>

text \<open>
  A method call on a value that has no such method throws a \<^verbatim>\<open>TypeError\<close>;
  \<^verbatim>\<open>extractRouteInfo\<close> catches it and returns \<^verbatim>\<open>null\<close>.
\<close>

datatype js_error = TypeError

text \<open>
  \<^verbatim>\<open>combinePaths(pathPrefix, routePath)\<close>. The parameters are declared \<^verbatim>\<open>string\<close>, the
  arguments come from values typed \<^verbatim>\<open>any\<close>: \<^verbatim>\<open>startsWith\<close> exists on strings only.
\<close>

definition normalize_slash :: "string \<Rightarrow> string" where
  "normalize_slash p = (if startsWith p ''/'' then p else ''/'' @ p)"

definition combinePaths :: "jsval \<Rightarrow> jsval \<Rightarrow> js_error + jsval" where
  "combinePaths pathPrefix routePath =
     (if falsy pathPrefix then Inr (if truthy routePath then routePath else JString ''/'')
      else if falsy routePath \<or> routePath = JString ''/'' then Inr pathPrefix
      else (case pathPrefix of
              JString p \<Rightarrow>
                (case routePath of
                   JString r \<Rightarrow>
                     (let normalizedPrefix = normalize_slash p;
                          normalizedRoute = normalize_slash r;
                          cleanPrefix =
                            (if endsWith normalizedPrefix ''/'' \<and> normalizedRoute \<noteq> ''/''
                             then butlast normalizedPrefix else normalizedPrefix)
                      in Inr (JString (cleanPrefix @ normalizedRoute)))
                 | _ \<Rightarrow> Inl TypeError)
            | _ \<Rightarrow> Inl TypeError))"

text \<open>Path composition as the specification words it (section 4.6, step 4), on strings.\<close>

definition combinePaths_spec :: "string \<Rightarrow> string \<Rightarrow> string" where
  "combinePaths_spec prefix route =
     (if prefix = [] then (if route = [] then ''/'' else route)
      else if route = [] \<or> route = ''/'' then prefix
      else (let p = (if hd prefix = CHR ''/'' then prefix else CHR ''/'' # prefix);
                r = (if hd route = CHR ''/'' then route else CHR ''/'' # route)
            in (if last p = CHR ''/'' then butlast p else p) @ r))"

section \<open>Syntax trees\<close>

text \<open>
  The part of the TypeScript syntax tree the parsers look at. \<open>OtherExpression\<close> stands
  for every expression kind they do not test for (template literals, arrow functions,
  element accesses, spreads, ...), \<open>OtherElement\<close> for shorthand properties, spreads and
  accessors, \<open>OtherPropertyName\<close> for numeric and private names. A numeric literal
  carries the double that \<^verbatim>\<open>parseFloat\<close> gives for its text.
\<close>

datatype property_name =
    IdentifierName string
  | StringLiteralName string
  | ComputedPropertyName
  | OtherPropertyName

datatype expression =
    ObjectLiteralExpression "object_literal_element list"
  | StringLiteral string
  | NumericLiteral double
  | TrueKeyword
  | FalseKeyword
  | CallExpression expression "expression list"
  | PropertyAccessExpression expression string
  | Identifier string
  | OtherExpression
and object_literal_element =
    PropertyAssignment property_name expression
  | MethodDeclaration property_name
  | OtherElement

section \<open>The object-literal evaluator\<close>

fun getPropertyName :: "property_name \<Rightarrow> string option" where
  "getPropertyName (IdentifierName t) = Some t"
| "getPropertyName (StringLiteralName t) = Some t"
| "getPropertyName ComputedPropertyName = None"
| "getPropertyName OtherPropertyName = None"

text \<open>\<^verbatim>\<open>if (key)\<close>: the empty string is no key.\<close>

definition usable_key :: "string option \<Rightarrow> string option" where
  "usable_key key = (case key of Some k \<Rightarrow> (if k = [] then None else Some k) | None \<Rightarrow> None)"

fun isRouterCall :: "expression \<Rightarrow> bool" where
  "isRouterCall (PropertyAccessExpression e name) = (name = ''router'')"
| "isRouterCall callee = False"

definition httpMethods :: "string list" where
  "httpMethods = [''get'', ''post'', ''put'', ''patch'', ''delete'', ''head'', ''options'']"

fun isTsRestMethodCall :: "expression \<Rightarrow> bool" where
  "isTsRestMethodCall (PropertyAccessExpression e methodName) =
     (toLowerCase methodName \<in> set httpMethods)"
| "isTsRestMethodCall callee = False"

text \<open>The object \<^verbatim>\<open>extractTsRestMethodCall\<close> starts from, and its first-argument step.\<close>

definition method_route :: "string \<Rightarrow> jsval" where
  "method_route methodName =
     new_object [(''method'', JString methodName), (''__method'', JString methodName),
                 (''__call'', JBoolean True)]"

fun set_path_arg :: "expression \<Rightarrow> jsval \<Rightarrow> jsval" where
  "set_path_arg (StringLiteral t) route =
     set_prop (set_prop route ''path'' (JString t)) ''__path'' (JString t)"
| "set_path_arg pathArg route = route"

definition assign_if_truthy :: "jsval \<Rightarrow> jsval \<Rightarrow> jsval" where
  "assign_if_truthy target v = (if truthy v then object_assign target v else target)"

definition set_options :: "jsval \<Rightarrow> jsval \<Rightarrow> jsval" where
  "set_options router options =
     (if truthy options then set_prop router ''__options'' options else router)"

text \<open>
  \<^verbatim>\<open>extractObjectLiteral\<close> with the loop over the properties of an object literal
  (\<open>extractProperties\<close>, the object built so far as accumulator), \<^verbatim>\<open>extractRouterCall\<close>
  and \<^verbatim>\<open>extractTsRestMethodCall\<close>, the last two on the callee and the argument list of
  the call.
\<close>

fun extractObjectLiteral :: "expression \<Rightarrow> jsval"
  and extractProperties :: "object_literal_element list \<Rightarrow> jsval \<Rightarrow> jsval"
  and extractRouterCall :: "expression list \<Rightarrow> jsval"
  and extractTsRestMethodCall :: "expression \<Rightarrow> expression list \<Rightarrow> jsval"
where
  "extractObjectLiteral (ObjectLiteralExpression properties) =
     extractProperties properties (new_object [])"
| "extractObjectLiteral (StringLiteral t) = JString t"
| "extractObjectLiteral (NumericLiteral d) = JNumber d"
| "extractObjectLiteral TrueKeyword = JBoolean True"
| "extractObjectLiteral FalseKeyword = JBoolean False"
| "extractObjectLiteral (CallExpression callee arguments) =
     (if isRouterCall callee then extractRouterCall arguments
      else if isTsRestMethodCall callee then extractTsRestMethodCall callee arguments
      else JNull)"
| "extractObjectLiteral (PropertyAccessExpression e name) = JNull"
| "extractObjectLiteral (Identifier t) = JNull"
| "extractObjectLiteral OtherExpression = JNull"
| "extractProperties [] obj = obj"
| "extractProperties (PropertyAssignment name initializer # properties) obj =
     extractProperties properties
       (case usable_key (getPropertyName name) of
          Some key \<Rightarrow> set_prop obj key (extractObjectLiteral initializer)
        | None \<Rightarrow> obj)"
| "extractProperties (MethodDeclaration name # properties) obj =
     extractProperties properties
       (case usable_key (getPropertyName name) of
          Some key \<Rightarrow> set_prop obj key (new_object [(''__method'', JBoolean True)])
        | None \<Rightarrow> obj)"
| "extractProperties (OtherElement # properties) obj = extractProperties properties obj"
| "extractRouterCall [] = new_object [(''__router'', JBoolean True)]"
| "extractRouterCall [routes] =
     assign_if_truthy (new_object [(''__router'', JBoolean True)]) (extractObjectLiteral routes)"
| "extractRouterCall (routes # options # rest) =
     set_options
       (assign_if_truthy (new_object [(''__router'', JBoolean True)]) (extractObjectLiteral routes))
       (extractObjectLiteral options)"
| "extractTsRestMethodCall (PropertyAccessExpression e name) [] =
     method_route (toUpperCase name)"
| "extractTsRestMethodCall (PropertyAccessExpression e name) [pathArg] =
     set_path_arg pathArg (method_route (toUpperCase name))"
| "extractTsRestMethodCall (PropertyAccessExpression e name) (pathArg # optionsArg # rest) =
     assign_if_truthy (set_path_arg pathArg (method_route (toUpperCase name)))
       (extractObjectLiteral optionsArg)"
| "extractTsRestMethodCall callee arguments = JNull"

section \<open>The export table\<close>

text \<open>
  The table is a JavaScript \<^verbatim>\<open>Map\<close>: a list of entries in insertion order, written
  with \<open>set_entry\<close> and read with \<open>map_of\<close>.
\<close>

type_synonym exports = "(string \<times> jsval) list"

text \<open>
  A variable declaration has an identifier or a destructuring pattern as its name, and
  may have an initializer.
\<close>

datatype binding_name = BindingIdentifier string | BindingPattern

record variable_declaration =
  decl_name :: binding_name
  decl_initializer :: "expression option"

text \<open>
  The nodes of a source file that \<^verbatim>\<open>extractExports\<close> acts on. The visitor descends
  into every node after handling it, so each node carries the statements nested below
  it, in source order.
\<close>

datatype node =
    VariableStatement bool "variable_declaration list" "node list"
  | ExportAssignment expression "node list"
  | OtherNode "node list"

definition processDeclaration ::
  "bool \<Rightarrow> nat \<Rightarrow> variable_declaration \<Rightarrow> exports \<Rightarrow> exports" where
  "processDeclaration isExported count declaration exports =
     (case decl_name declaration of
        BindingPattern \<Rightarrow> exports
      | BindingIdentifier name \<Rightarrow>
          (case decl_initializer declaration of
             None \<Rightarrow> exports
           | Some initializer \<Rightarrow>
               (let v = extractObjectLiteral initializer
                in if truthy v
                   then (let exports' = set_entry name v exports
                         in if isExported \<and> count = 1
                            then set_entry ''default'' v exports' else exports')
                   else exports)))"

definition processVariableStatement ::
  "bool \<Rightarrow> variable_declaration list \<Rightarrow> exports \<Rightarrow> exports" where
  "processVariableStatement isExported declarations exports =
     foldl (\<lambda>ex d. processDeclaration isExported (length declarations) d ex)
       exports declarations"

definition processExportAssignment :: "expression \<Rightarrow> exports \<Rightarrow> exports" where
  "processExportAssignment e exports =
     (let v = extractObjectLiteral e
      in if truthy v then set_entry ''default'' v exports else exports)"

fun visitor :: "node \<Rightarrow> exports \<Rightarrow> exports"
  and visit_children :: "node list \<Rightarrow> exports \<Rightarrow> exports"
where
  "visitor (VariableStatement isExported declarations children) exports =
     visit_children children (processVariableStatement isExported declarations exports)"
| "visitor (ExportAssignment e children) exports =
     visit_children children (processExportAssignment e exports)"
| "visitor (OtherNode children) exports = visit_children children exports"
| "visit_children [] exports = exports"
| "visit_children (n # ns) exports = visit_children ns (visitor n exports)"

text \<open>\<^verbatim>\<open>extractExports\<close> on the source file's top-level statements.\<close>

definition extractExports :: "node list \<Rightarrow> exports" where
  "extractExports statements = visit_children statements []"

section \<open>The route resolver\<close>

text \<open>
  \<^verbatim>\<open>findRouteInContract\<close>: the property named by the first path segment if it is
  truthy, otherwise the first truthy property of that name of an own enumerable property
  that is an object and whose key does not start with two underscores.
\<close>

fun scan_children :: "(string \<times> jsval) list \<Rightarrow> string \<Rightarrow> jsval" where
  "scan_children [] routeName = JNull"
| "scan_children ((key, v) # entries) routeName =
     (if is_object v \<and> \<not> startsWith key ''__'' \<and> truthy_prop (get_prop v routeName)
      then the (get_prop v routeName)
      else scan_children entries routeName)"

fun findRouteInContract :: "jsval \<Rightarrow> string list \<Rightarrow> jsval" where
  "findRouteInContract contractObj [] = JNull"
| "findRouteInContract contractObj (routeName # rest) =
     (if \<not> is_object contractObj then JNull
      else if truthy_prop (get_prop contractObj routeName)
      then the (get_prop contractObj routeName)
      else if truthy_prop (get_prop contractObj ''__router'')
         \<and> truthy_prop (get_prop contractObj routeName)
      then the (get_prop contractObj routeName)
      else scan_children (object_entries (own_properties contractObj)) routeName)"

text \<open>
  \<^verbatim>\<open>findContractByPath\<close>: start at the export named by the first segment, or at the
  \<^verbatim>\<open>default\<close> export, and follow the remaining segments.
\<close>

fun navigate :: "jsval \<Rightarrow> string list \<Rightarrow> jsval" where
  "navigate current [] = current"
| "navigate current (part # rest) =
     (if is_object current
      then (case get_prop current part of
              Some v \<Rightarrow> navigate v rest
            | None \<Rightarrow> JNull)
      else JNull)"

fun findContractByPath :: "exports \<Rightarrow> string list \<Rightarrow> jsval" where
  "findContractByPath exports [] = JNull"
| "findContractByPath exports (firstPart # restPath) =
     (case js_or (map_of exports firstPart) (map_of exports ''default'') of
        None \<Rightarrow> JNull
      | Some current \<Rightarrow> if truthy current then navigate current restPath else JNull)"

record contract_definition =
  def_method :: jsprop
  def_path :: jsprop
  def_summary :: jsprop
  def_description :: jsprop
  def_responses :: jsprop
  def_body :: jsprop
  def_query :: jsprop
  def_params :: jsprop

text \<open>\<^verbatim>\<open>extractFromTsRestRoute\<close>; \<^verbatim>\<open>toUpperCase\<close> exists on strings only.\<close>

definition extractFromTsRestRoute :: "jsval \<Rightarrow> js_error + contract_definition option" where
  "extractFromTsRestRoute contractObj =
     (let method = js_or_val (js_or (get_prop contractObj ''method'')
                                    (get_prop contractObj ''__method'')) (JString ''GET'');
          path = js_or_val (js_or (get_prop contractObj ''path'')
                                  (get_prop contractObj ''__path'')) (JString ''/'')
      in case method of
           JString m \<Rightarrow> Inr (Some \<lparr>
             def_method = Some (JString (toUpperCase m)),
             def_path = Some path,
             def_summary = js_or (get_prop contractObj ''summary'') (get_prop contractObj ''__summary''),
             def_description = js_or (get_prop contractObj ''description'') (get_prop contractObj ''__description''),
             def_responses = js_or (get_prop contractObj ''responses'') (get_prop contractObj ''__responses''),
             def_body = js_or (get_prop contractObj ''body'') (get_prop contractObj ''__body''),
             def_query = js_or (get_prop contractObj ''query'') (get_prop contractObj ''__query''),
             def_params = js_or (get_prop contractObj ''params'') (get_prop contractObj ''__params'') \<rparr>)
         | _ \<Rightarrow> Inl TypeError)"

text \<open>The last case of \<^verbatim>\<open>extractRouteDefinition\<close>: the double-underscore properties.\<close>

definition internalProperties :: "jsval \<Rightarrow> js_error + contract_definition option" where
  "internalProperties contractObj =
     (if truthy_prop (get_prop contractObj ''__method'')
         \<or> truthy_prop (get_prop contractObj ''__path'')
      then Inr (Some \<lparr>
        def_method = get_prop contractObj ''__method'',
        def_path = get_prop contractObj ''__path'',
        def_summary = js_or (get_prop contractObj ''__summary'') (get_prop contractObj ''summary''),
        def_description = js_or (get_prop contractObj ''__description'') (get_prop contractObj ''description''),
        def_responses = js_or (get_prop contractObj ''__responses'') (get_prop contractObj ''responses''),
        def_body = js_or (get_prop contractObj ''__body'') (get_prop contractObj ''body''),
        def_query = js_or (get_prop contractObj ''__query'') (get_prop contractObj ''query''),
        def_params = js_or (get_prop contractObj ''__params'') (get_prop contractObj ''params'') \<rparr>)
      else Inr None)"

function extractRouteDefinition :: "jsval \<Rightarrow> js_error + contract_definition option" where
  "extractRouteDefinition contractObj =
     (if \<not> is_object contractObj then Inr None
      else if truthy_prop (get_prop contractObj ''method'')
         \<or> truthy_prop (get_prop contractObj ''path'')
      then Inr (Some \<lparr>
        def_method = get_prop contractObj ''method'',
        def_path = get_prop contractObj ''path'',
        def_summary = get_prop contractObj ''summary'',
        def_description = get_prop contractObj ''description'',
        def_responses = get_prop contractObj ''responses'',
        def_body = get_prop contractObj ''body'',
        def_query = get_prop contractObj ''query'',
        def_params = get_prop contractObj ''params'' \<rparr>)
      else if truthy_prop (get_prop contractObj ''__call'')
         \<or> get_prop contractObj ''__type'' = Some (JString ''route'')
      then extractFromTsRestRoute contractObj
      else (case get_prop contractObj ''route'' of
              Some route \<Rightarrow>
                (if truthy route then extractRouteDefinition route
                 else internalProperties contractObj)
            | None \<Rightarrow> internalProperties contractObj))"
  by pat_completeness auto

termination
proof (relation "measure size")
  show "wf (measure size)" by simp
next
  fix contractObj :: jsval and route
  assume found: "get_prop contractObj ''route'' = Some route"
  have own: "map_of kvs k = Some v \<Longrightarrow> size v < size (JObject kvs p)" for kvs k v p
    by (induction kvs) (auto split: if_splits)
  have "lookup_chain rp obj ''route'' = Some v \<Longrightarrow> size v < size obj" for rp obj v
  proof (induction rp obj "''route''" rule: lookup_chain.induct)
    case (1 rp kvs p)
    show ?case
    proof (cases "map_of kvs ''route''")
      case None
      with 1 have "size v < size p" by simp
      then show ?thesis by simp
    next
      case (Some u)
      with 1 own [of kvs "''route''" u p] show ?thesis by simp
    qed
  qed (simp_all add: object_prototype_functions_def)
  then show "(route, contractObj) \<in> measure size"
    using found by (simp add: get_prop_def)
qed

declare extractRouteDefinition.simps [simp del]

text \<open>
  \<^verbatim>\<open>findPathPrefix\<close>: the first truthy \<^verbatim>\<open>__options.pathPrefix\<close> of a router among the
  exports, each export before its own children.
\<close>

definition router_prefix :: "jsval \<Rightarrow> jsval option" where
  "router_prefix v =
     (if truthy_prop (get_prop v ''__router'') \<and> truthy_prop (get_prop v ''__options'')
         \<and> truthy_prop (get_prop (the (get_prop v ''__options'')) ''pathPrefix'')
      then get_prop (the (get_prop v ''__options'')) ''pathPrefix''
      else None)"

fun child_prefix :: "(string \<times> jsval) list \<Rightarrow> jsval option" where
  "child_prefix [] = None"
| "child_prefix ((key, v) # entries) =
     (if is_object v \<and> router_prefix v \<noteq> None then router_prefix v
      else child_prefix entries)"

fun scan_prefix :: "exports \<Rightarrow> jsval" where
  "scan_prefix [] = JString []"
| "scan_prefix ((name, exportValue) # rest) =
     (if is_object exportValue
      then (case router_prefix exportValue of
              Some p \<Rightarrow> p
            | None \<Rightarrow>
                (case child_prefix (object_entries (own_properties exportValue)) of
                   Some p \<Rightarrow> p
                 | None \<Rightarrow> scan_prefix rest))
      else scan_prefix rest)"

definition findPathPrefix :: "exports \<Rightarrow> string list \<Rightarrow> jsval" where
  "findPathPrefix exports propertyPath =
     (if propertyPath = [] then JString [] else scan_prefix exports)"

text \<open>The import binding passed to \<^verbatim>\<open>extractRouteInfo\<close>; the parameter is optional.\<close>

record import_info =
  exportName :: "string option"
  isDefaultImport :: bool

record route_info =
  "method" :: jsval
  path :: jsval
  summary :: jsprop
  fullPath :: jsval

text \<open>
  The first part of \<^verbatim>\<open>extractRouteInfo\<close>, which finds the base contract object. With a
  truthy export name it looks in that export only. Otherwise it tries, in this order,
  \<^verbatim>\<open>findContractByPath\<close>, \<^verbatim>\<open>findRouteInContract\<close> in the \<^verbatim>\<open>default\<close> export, in the
  export named \<^verbatim>\<open>contract\<close>, and in every export in table order; \<open>try_all\<close> is the
  last loop, started with the value the variable holds.
\<close>

definition has_exportName :: "import_info option \<Rightarrow> string option" where
  "has_exportName importInfo =
     (case importInfo of
        None \<Rightarrow> None
      | Some i \<Rightarrow> (case exportName i of
                     None \<Rightarrow> None
                   | Some n \<Rightarrow> if n = [] then None else Some n))"

definition find_in_export :: "exports \<Rightarrow> string \<Rightarrow> string list \<Rightarrow> jsval \<Rightarrow> jsval" where
  "find_in_export exports name propertyPath baseContract =
     (case map_of exports name of
        None \<Rightarrow> baseContract
      | Some exportObj \<Rightarrow>
          if truthy exportObj then findRouteInContract exportObj propertyPath
          else baseContract)"

fun try_all :: "exports \<Rightarrow> string list \<Rightarrow> jsval \<Rightarrow> jsval" where
  "try_all [] propertyPath baseContract = baseContract"
| "try_all ((name, exportValue) # rest) propertyPath baseContract =
     (let found = findRouteInContract exportValue propertyPath
      in if truthy found then found else try_all rest propertyPath found)"

definition baseContract_of :: "exports \<Rightarrow> string list \<Rightarrow> import_info option \<Rightarrow> jsval" where
  "baseContract_of exports propertyPath importInfo =
     (case has_exportName importInfo of
        Some name \<Rightarrow> find_in_export exports name propertyPath JNull
      | None \<Rightarrow>
          (let b1 = findContractByPath exports propertyPath
           in if truthy b1 then b1
              else (let b2 = find_in_export exports ''default'' propertyPath b1;
                        b3 = (if truthy b2 then b2
                              else find_in_export exports ''contract'' propertyPath b2)
                    in if truthy b3 then b3 else try_all exports propertyPath b3)))"

definition extractRouteInfo ::
  "exports \<Rightarrow> string list \<Rightarrow> import_info option \<Rightarrow> route_info option" where
  "extractRouteInfo exports propertyPath importInfo =
     (let baseContract = baseContract_of exports propertyPath importInfo
      in if falsy baseContract then None
         else (case extractRouteDefinition baseContract of
                 Inl err \<Rightarrow> None
               | Inr None \<Rightarrow> None
               | Inr (Some routeDefinition) \<Rightarrow>
                   (let pathPrefix = findPathPrefix exports propertyPath;
                        routePath = js_or_val (def_path routeDefinition) (JString [])
                    in case combinePaths pathPrefix routePath of
                         Inl err \<Rightarrow> None
                       | Inr full \<Rightarrow> Some \<lparr>
                           method = js_or_val (def_method routeDefinition) (JString ''GET''),
                           path = routePath,
                           summary = def_summary routeDefinition,
                           fullPath = full \<rparr>)))"

section \<open>Module resolution\<close>

text \<open>
  \<^verbatim>\<open>resolveImportPath\<close> uses Node's \<^verbatim>\<open>path\<close> module and the file system of the
  editor; both are parameters here: the three path functions, and the predicate that
  says for which paths \<^verbatim>\<open>stat\<close> succeeds.
\<close>

record path_module =
  dirname :: "string \<Rightarrow> string"
  resolve :: "string \<Rightarrow> string \<Rightarrow> string"
  join :: "string \<Rightarrow> string \<Rightarrow> string"

definition extensions :: "string list" where
  "extensions = [''.ts'', ''.tsx'', ''.js'', ''.jsx'']"

text \<open>The two loops: return the first candidate for which \<^verbatim>\<open>stat\<close> does not throw.\<close>

fun probe :: "(string \<Rightarrow> bool) \<Rightarrow> string list \<Rightarrow> string option" where
  "probe stat [] = None"
| "probe stat (candidate # candidates) =
     (if stat candidate then Some candidate else probe stat candidates)"

definition resolveImportPath ::
  "path_module \<Rightarrow> (string \<Rightarrow> bool) \<Rightarrow> string \<Rightarrow> string \<Rightarrow> string option" where
  "resolveImportPath pm stat importPath fromFile =
     (if startsWith importPath ''.''
      then (let basePath = dirname pm fromFile;
                resolvedPath = resolve pm basePath importPath
            in case probe stat (map (\<lambda>ext. resolvedPath @ ext) extensions) of
                 Some found \<Rightarrow> Some found
               | None \<Rightarrow>
                   probe stat (map (\<lambda>ext. join pm resolvedPath (''index'' @ ext)) extensions))
      else None)"

section \<open>Decorator extraction\<close>

text \<open>
  From \<^verbatim>\<open>ast-parser.ts\<close>. A decorator is its expression with the offsets of its start
  and end; the document turns an offset into a position.
\<close>

record position =
  line :: nat
  character :: nat

record decorator =
  dec_expression :: expression
  dec_start :: nat
  dec_end :: nat

datatype modifier = Decorator decorator | OtherModifier

record handler_decorator_info =
  info_position :: position
  info_line :: nat
  contractReference :: string
  contractPropertyPath :: "string list"
  info_range :: "position \<times> position"

fun isTsRestHandlerDecorator :: "expression \<Rightarrow> bool" where
  "isTsRestHandlerDecorator (Identifier t) = (t = ''TsRestHandler'')"
| "isTsRestHandlerDecorator (PropertyAccessExpression e name) = (name = ''TsRestHandler'')"
| "isTsRestHandlerDecorator callee = False"

text \<open>
  \<^verbatim>\<open>extractContractReference\<close>: the loop puts each property name in front of the path
  and goes on with the expression before the dot.
\<close>

fun walk_reference :: "expression \<Rightarrow> string list \<Rightarrow> (string \<times> string list) option" where
  "walk_reference (PropertyAccessExpression e name) propertyPath =
     walk_reference e (name # propertyPath)"
| "walk_reference (Identifier t) propertyPath = Some (t, propertyPath)"
| "walk_reference current propertyPath = None"

definition extractContractReference :: "expression \<Rightarrow> (string \<times> string list) option" where
  "extractContractReference argument = walk_reference argument []"

definition analyzeDecorator ::
  "decorator \<Rightarrow> (nat \<Rightarrow> position) \<Rightarrow> handler_decorator_info option" where
  "analyzeDecorator d positionAt =
     (case dec_expression d of
        CallExpression callee arguments \<Rightarrow>
          (if \<not> isTsRestHandlerDecorator callee then None
           else (case arguments of
                   [argument] \<Rightarrow>
                     (case extractContractReference argument of
                        None \<Rightarrow> None
                      | Some (base, propertyPath) \<Rightarrow> Some \<lparr>
                          info_position = positionAt (dec_start d),
                          info_line = line (positionAt (dec_start d)),
                          contractReference = base,
                          contractPropertyPath = propertyPath,
                          info_range = (positionAt (dec_start d), positionAt (dec_end d)) \<rparr>)
                 | _ \<Rightarrow> None))
      | _ \<Rightarrow> None)"

text \<open>
  \<^verbatim>\<open>processMethodDecorators\<close> on the modifiers of a method or function (none when the
  declaration has no modifiers), appending to the decorators found so far.
\<close>

fun processMethodDecorators ::
  "modifier list \<Rightarrow> (nat \<Rightarrow> position) \<Rightarrow> handler_decorator_info list
     \<Rightarrow> handler_decorator_info list" where
  "processMethodDecorators [] positionAt decorators = decorators"
| "processMethodDecorators (Decorator d # modifiers) positionAt decorators =
     processMethodDecorators modifiers positionAt
       (case analyzeDecorator d positionAt of
          Some decoratorInfo \<Rightarrow> decorators @ [decoratorInfo]
        | None \<Rightarrow> decorators)"
| "processMethodDecorators (OtherModifier # modifiers) positionAt decorators =
     processMethodDecorators modifiers positionAt decorators"

text \<open>The expression a chain of property accesses starts from.\<close>

fun base_expression :: "expression \<Rightarrow> expression" where
  "base_expression (PropertyAccessExpression e name) = base_expression e"
| "base_expression e = e"

fun is_identifier :: "expression \<Rightarrow> bool" where
  "is_identifier (Identifier t) = True"
| "is_identifier e = False"

fun is_call :: "expression \<Rightarrow> bool" where
  "is_call (CallExpression callee arguments) = True"
| "is_call e = False"

section \<open>The specification's wording, for comparison\<close>

text \<open>
  The candidate files of module resolution in the order the specification gives them
  (section 4.3): the resolved specifier with each extension, then the index files.
\<close>

definition candidates_spec :: "path_module \<Rightarrow> string \<Rightarrow> string \<Rightarrow> string list" where
  "candidates_spec pm importPath fromFile =
     (let r = resolve pm (dirname pm fromFile) importPath
      in [r @ ''.ts'', r @ ''.tsx'', r @ ''.js'', r @ ''.jsx'',
          join pm r ''index.ts'', join pm r ''index.tsx'',
          join pm r ''index.js'', join pm r ''index.jsx''])"

text \<open>
  Path functions for the examples: absolute paths, specifiers of the form \<^verbatim>\<open>./name\<close>.
\<close>

definition example_paths :: path_module where
  "example_paths = \<lparr>
     dirname = (\<lambda>f. rev (tl (dropWhile (\<lambda>c. c \<noteq> CHR ''/'') (rev f)))),
     resolve = (\<lambda>base specifier. base @ tl specifier),
     join = (\<lambda>a b. a @ ''/'' @ b) \<rparr>"

text \<open>
  The writes to the export table (section 4.5, with truthiness in place of
  "not \<^verbatim>\<open>Null\<close>"). A declaration named by an identifier, with an initializer whose value
  is truthy, writes the value under its name, and also under \<^verbatim>\<open>default\<close> when the
  statement is exported and has exactly one declaration. An export assignment with a
  truthy value writes it under \<^verbatim>\<open>default\<close>. \<open>file_writes\<close> lists the writes of the
  statements of a file in source order, each statement before the statements nested in
  it.
\<close>

definition binding_of :: "variable_declaration \<Rightarrow> (string \<times> jsval) option" where
  "binding_of d =
     (case decl_name d of
        BindingPattern \<Rightarrow> None
      | BindingIdentifier name \<Rightarrow>
          (case decl_initializer d of
             None \<Rightarrow> None
           | Some initializer \<Rightarrow>
               if truthy (extractObjectLiteral initializer)
               then Some (name, extractObjectLiteral initializer) else None))"

definition writes_of :: "bool \<Rightarrow> nat \<Rightarrow> variable_declaration \<Rightarrow> (string \<times> jsval) list" where
  "writes_of isExported count d =
     (case binding_of d of
        None \<Rightarrow> []
      | Some (name, v) \<Rightarrow>
          if isExported \<and> count = 1 then [(name, v), (''default'', v)] else [(name, v)])"

definition writes_spec :: "bool \<Rightarrow> variable_declaration list \<Rightarrow> (string \<times> jsval) list" where
  "writes_spec isExported declarations =
     concat (map (writes_of isExported (length declarations)) declarations)"

fun node_writes :: "node \<Rightarrow> (string \<times> jsval) list"
  and file_writes :: "node list \<Rightarrow> (string \<times> jsval) list"
where
  "node_writes (VariableStatement isExported declarations children) =
     writes_spec isExported declarations @ file_writes children"
| "node_writes (ExportAssignment e children) =
     (if truthy (extractObjectLiteral e) then [(''default'', extractObjectLiteral e)] else [])
     @ file_writes children"
| "node_writes (OtherNode children) = file_writes children"
| "file_writes [] = []"
| "file_writes (n # ns) = node_writes n @ file_writes ns"

text \<open>
  The lookup strategies of the default-import case in the order the specification lists
  them (section 4.6, step 1): path traversal, the \<^verbatim>\<open>default\<close> export, the export named
  \<^verbatim>\<open>contract\<close>, then every export in table order.
\<close>

definition in_export :: "exports \<Rightarrow> string \<Rightarrow> string list \<Rightarrow> jsval" where
  "in_export exports name propertyPath =
     (case map_of exports name of
        Some v \<Rightarrow> findRouteInContract v propertyPath
      | None \<Rightarrow> JNull)"

definition lookup_strategies :: "exports \<Rightarrow> string list \<Rightarrow> jsval list" where
  "lookup_strategies exports propertyPath =
     findContractByPath exports propertyPath
     # in_export exports ''default'' propertyPath
     # in_export exports ''contract'' propertyPath
     # map (\<lambda>(name, v). findRouteInContract v propertyPath) exports"

section \<open>Example files\<close>

text \<open>
  The route and the router of the repository's documented example:
  \<^verbatim>\<open>c.router({ createPost: { method: 'POST', path: '/', summary: 'Create a new post' } },
  { pathPrefix: '/posts' })\<close>.
\<close>

definition createPost_route :: expression where
  "createPost_route = ObjectLiteralExpression
     [PropertyAssignment (IdentifierName ''method'') (StringLiteral ''POST''),
      PropertyAssignment (IdentifierName ''path'') (StringLiteral ''/''),
      PropertyAssignment (IdentifierName ''summary'') (StringLiteral ''Create a new post'')]"

definition posts_router :: expression where
  "posts_router = CallExpression (PropertyAccessExpression (Identifier ''c'') ''router'')
     [ObjectLiteralExpression [PropertyAssignment (IdentifierName ''createPost'') createPost_route],
      ObjectLiteralExpression
        [PropertyAssignment (IdentifierName ''pathPrefix'') (StringLiteral ''/posts'')]]"

text \<open>A statement \<^verbatim>\<open>const name = initializer\<close>, exported or not.\<close>

definition const_statement :: "bool \<Rightarrow> string \<Rightarrow> expression \<Rightarrow> node" where
  "const_statement isExported name initializer =
     VariableStatement isExported
       [\<lparr>decl_name = BindingIdentifier name, decl_initializer = Some initializer\<rparr>] []"

text \<open>
  Three contract files with that router: \<^verbatim>\<open>export default c.router(...)\<close>;
  \<^verbatim>\<open>export const postsContract = c.router(...)\<close>; and
  \<^verbatim>\<open>const postsContract = c.router(...); export default postsContract\<close>.
\<close>

definition export_default_file :: "node list" where
  "export_default_file = [ExportAssignment posts_router []]"

definition export_const_file :: "node list" where
  "export_const_file = [const_statement True ''postsContract'' posts_router]"

definition plain_const_file :: "node list" where
  "plain_const_file =
     [const_statement False ''postsContract'' posts_router,
      ExportAssignment (Identifier ''postsContract'') []]"

text \<open>The binding of \<^verbatim>\<open>import c from './posts.contract'\<close>.\<close>

definition default_import :: "import_info option" where
  "default_import = Some \<lparr>exportName = None, isDefaultImport = True\<rparr>"

text \<open>A route object \<^verbatim>\<open>{ method: m, path: p }\<close> and the object \<^verbatim>\<open>{ key: route }\<close>.\<close>

definition route_literal :: "expression \<Rightarrow> expression \<Rightarrow> expression" where
  "route_literal m p = ObjectLiteralExpression
     [PropertyAssignment (IdentifierName ''method'') m,
      PropertyAssignment (IdentifierName ''path'') p]"

definition routes_literal :: "string \<Rightarrow> expression \<Rightarrow> expression" where
  "routes_literal key route = ObjectLiteralExpression [PropertyAssignment (IdentifierName key) route]"

text \<open>\<^verbatim>\<open>const contract = { createPost: { method: 'post', path: '/' } }\<close>.\<close>

definition lowercase_file :: "node list" where
  "lowercase_file =
     [const_statement False ''contract''
        (routes_literal ''createPost'' (route_literal (StringLiteral ''post'') (StringLiteral ''/'')))]"

text \<open>\<^verbatim>\<open>const contract = { createPost: c.post('/') }\<close>.\<close>

definition builder_file :: "node list" where
  "builder_file =
     [const_statement False ''contract''
        (routes_literal ''createPost''
           (CallExpression (PropertyAccessExpression (Identifier ''c'') ''post'')
              [StringLiteral ''/'']))]"

text \<open>The double 5: sign 0, exponent 1025, fraction \<open>2^50\<close>.\<close>

definition five :: double where
  "five = 0x4014000000000000"

text \<open>
  \<^verbatim>\<open>const contract = { getPost: { method: 'GET', path: 5 } }\<close>, and the same route in
  a router with a prefix:
  \<^verbatim>\<open>const contract = c.router({ getPost: { method: 'GET', path: 5 } }, { pathPrefix: '/posts' })\<close>.
\<close>

definition numeric_path_file :: "node list" where
  "numeric_path_file =
     [const_statement False ''contract''
        (routes_literal ''getPost'' (route_literal (StringLiteral ''GET'') (NumericLiteral five)))]"

definition numeric_path_router_file :: "node list" where
  "numeric_path_router_file =
     [const_statement False ''contract''
        (CallExpression (PropertyAccessExpression (Identifier ''c'') ''router'')
           [routes_literal ''getPost'' (route_literal (StringLiteral ''GET'') (NumericLiteral five)),
            ObjectLiteralExpression
              [PropertyAssignment (IdentifierName ''pathPrefix'') (StringLiteral ''/posts'')]])]"

text \<open>
  Two objects that both have a route \<^verbatim>\<open>getAll\<close>, \<^verbatim>\<open>posts\<close> declared before \<^verbatim>\<open>users\<close>:
  \<^verbatim>\<open>const posts = { getAll: { method: 'GET', path: '/posts' } };
  const users = { getAll: { method: 'GET', path: '/users' } }\<close>, each statement with or
  without \<^verbatim>\<open>export\<close>.
\<close>

definition siblings_file :: "bool \<Rightarrow> node list" where
  "siblings_file isExported =
     [const_statement isExported ''posts''
        (routes_literal ''getAll'' (route_literal (StringLiteral ''GET'') (StringLiteral ''/posts''))),
      const_statement isExported ''users''
        (routes_literal ''getAll'' (route_literal (StringLiteral ''GET'') (StringLiteral ''/users'')))]"

section \<open>Properties of path composition\<close>

lemma startsWith_slash: "s \<noteq> [] \<Longrightarrow> startsWith s ''/'' = (hd s = CHR ''/'')"
  by (cases s) (simp_all add: startsWith_def)

lemma endsWith_slash: "s \<noteq> [] \<Longrightarrow> endsWith s ''/'' = (last s = CHR ''/'')"
proof (induction s rule: rev_induct)
  case Nil
  then show ?case by simp
next
  case (snoc x xs)
  show ?case by (simp add: endsWith_def)
qed

lemma normalize_slash_nonempty: "normalize_slash s \<noteq> []"
  by (cases s) (simp_all add: normalize_slash_def startsWith_def)

lemma normalize_slash_not_root:
  assumes "r \<noteq> []" and "r \<noteq> ''/''"
  shows "normalize_slash r \<noteq> ''/''"
  using assms by (cases r) (auto simp: normalize_slash_def startsWith_def)

lemma combinePaths_strings:
  "combinePaths (JString p) (JString r) = Inr (JString (combinePaths_spec p r))"
proof (cases "p = []")
  case True
  then show ?thesis by (simp add: combinePaths_def combinePaths_spec_def falsy_def)
next
  case p: False
  show ?thesis
  proof (cases "r = [] \<or> r = ''/''")
    case True
    with p show ?thesis by (auto simp: combinePaths_def combinePaths_spec_def falsy_def)
  next
    case False
    then have r: "r \<noteq> []" "r \<noteq> ''/''" by auto
    have nr: "normalize_slash r \<noteq> ''/''" using r by (rule normalize_slash_not_root)
    have np: "normalize_slash p = (if hd p = CHR ''/'' then p else CHR ''/'' # p)"
      using p by (simp add: normalize_slash_def startsWith_slash)
    have nr': "normalize_slash r = (if hd r = CHR ''/'' then r else CHR ''/'' # r)"
      using r by (simp add: normalize_slash_def startsWith_slash)
    have e: "endsWith (normalize_slash p) ''/'' = (last (normalize_slash p) = CHR ''/'')"
      by (rule endsWith_slash) (rule normalize_slash_nonempty)
    show ?thesis
      using p r nr e unfolding combinePaths_def combinePaths_spec_def Let_def
      by (simp add: np nr' falsy_def del: last.simps)
  qed
qed

text \<open>
  C4. For all strings, \<^verbatim>\<open>combinePaths\<close> computes the composition the specification
  describes: an empty prefix gives the route path (or \<^verbatim>\<open>/\<close> when that is empty), a
  prefix with an empty or root route path gives the prefix unchanged, and otherwise both
  are made to start with a slash, one trailing slash of the prefix is dropped and the two
  are concatenated; the prefix \<^verbatim>\<open>/posts/\<close> with the route path \<^verbatim>\<open>/comments\<close> gives
  \<^verbatim>\<open>/posts/comments\<close>.
\<close>

theorem combinePaths_composition:
  "combinePaths (JString p) (JString r) = Inr (JString (combinePaths_spec p r))
   \<and> combinePaths (JString []) (JString []) = Inr (JString ''/'')
   \<and> combinePaths (JString ''/posts'') (JString ''/'') = Inr (JString ''/posts'')
   \<and> combinePaths (JString ''/posts/'') (JString ''/comments'') = Inr (JString ''/posts/comments'')"
  by (simp add: combinePaths_strings combinePaths_spec_def)


section \<open>Routes with an empty property path\<close>

lemma findRouteInContract_empty: "findRouteInContract v [] = JNull"
  by simp

lemma try_all_empty: "try_all exports [] JNull = JNull"
  by (induction exports) (auto simp: findRouteInContract_empty)

lemma find_in_export_empty: "find_in_export exports name [] JNull = JNull"
  by (simp add: find_in_export_def findRouteInContract_empty split: option.split)

lemma baseContract_of_empty: "baseContract_of exports [] importInfo = JNull"
  by (simp add: baseContract_of_def find_in_export_empty try_all_empty split: option.split)

text \<open>
  C9. With an empty property path \<^verbatim>\<open>extractRouteInfo\<close> returns \<^verbatim>\<open>null\<close>, for every export
  table and every import binding. The decorator extractor accepts a handler decorator
  whose argument is a bare identifier, with the empty property path; so such a decorator
  never gets a route.
\<close>

theorem extractRouteInfo_empty_path:
  "extractRouteInfo exports [] importInfo = None
   \<and> analyzeDecorator
        \<lparr>dec_expression = CallExpression (Identifier ''TsRestHandler'') [Identifier c],
         dec_start = s, dec_end = e\<rparr> positionAt
      = Some \<lparr>info_position = positionAt s, info_line = line (positionAt s),
              contractReference = c, contractPropertyPath = [],
              info_range = (positionAt s, positionAt e)\<rparr>"
proof
  show "extractRouteInfo exports [] importInfo = None"
    by (simp add: extractRouteInfo_def baseContract_of_empty falsy_def)
next
  show "analyzeDecorator
        \<lparr>dec_expression = CallExpression (Identifier ''TsRestHandler'') [Identifier c],
         dec_start = s, dec_end = e\<rparr> positionAt
      = Some \<lparr>info_position = positionAt s, info_line = line (positionAt s),
              contractReference = c, contractPropertyPath = [],
              info_range = (positionAt s, positionAt e)\<rparr>"
    by (simp add: analyzeDecorator_def extractContractReference_def)
qed

section \<open>Module resolution probes in a fixed order\<close>

lemma probe_find: "probe stat cs = List.find stat cs"
  by (induction cs) simp_all

lemma resolveImportPath_candidates:
  assumes "startsWith importPath ''.''"
  shows "resolveImportPath pm stat importPath fromFile
         = List.find stat (candidates_spec pm importPath fromFile)"
  using assms
  by (simp add: resolveImportPath_def candidates_spec_def extensions_def Let_def)

text \<open>
  C6. A specifier that does not begin with a dot resolves to nothing. For one that does,
  the result is the first existing file among the resolved specifier with the extensions
  \<^verbatim>\<open>.ts\<close>, \<^verbatim>\<open>.tsx\<close>, \<^verbatim>\<open>.js\<close>, \<^verbatim>\<open>.jsx\<close> and then the index files with the same
  extensions; when none of the four direct candidates exists and \<^verbatim>\<open>index.ts\<close> below the
  resolved specifier does, the index file is the result.
\<close>

theorem resolveImportPath_order:
  "(\<not> startsWith importPath ''.'' \<longrightarrow> resolveImportPath pm stat importPath fromFile = None)
   \<and> (startsWith importPath ''.'' \<longrightarrow>
        resolveImportPath pm stat importPath fromFile
        = List.find stat (candidates_spec pm importPath fromFile))
   \<and> (startsWith importPath ''.''
        \<and> r = resolve pm (dirname pm fromFile) importPath
        \<and> \<not> stat (r @ ''.ts'') \<and> \<not> stat (r @ ''.tsx'')
        \<and> \<not> stat (r @ ''.js'') \<and> \<not> stat (r @ ''.jsx'')
        \<and> stat (join pm r ''index.ts'')
        \<longrightarrow> resolveImportPath pm stat importPath fromFile = Some (join pm r ''index.ts''))"
proof (intro conjI impI)
  assume "\<not> startsWith importPath ''.''"
  then show "resolveImportPath pm stat importPath fromFile = None"
    by (simp add: resolveImportPath_def)
next
  assume "startsWith importPath ''.''"
  then show "resolveImportPath pm stat importPath fromFile
             = List.find stat (candidates_spec pm importPath fromFile)"
    by (rule resolveImportPath_candidates)
next
  assume a: "startsWith importPath ''.''
        \<and> r = resolve pm (dirname pm fromFile) importPath
        \<and> \<not> stat (r @ ''.ts'') \<and> \<not> stat (r @ ''.tsx'')
        \<and> \<not> stat (r @ ''.js'') \<and> \<not> stat (r @ ''.jsx'')
        \<and> stat (join pm r ''index.ts'')"
  then have rel: "startsWith importPath ''.''"
    and r: "resolve pm (dirname pm fromFile) importPath = r"
    and absent: "\<not> stat (r @ ''.ts'')" "\<not> stat (r @ ''.tsx'')"
      "\<not> stat (r @ ''.js'')" "\<not> stat (r @ ''.jsx'')"
    and present: "stat (join pm r ''index.ts'')"
    by blast+
  have "List.find stat (candidates_spec pm importPath fromFile) = Some (join pm r ''index.ts'')"
    unfolding candidates_spec_def Let_def r using absent present by simp
  then show "resolveImportPath pm stat importPath fromFile = Some (join pm r ''index.ts'')"
    using resolveImportPath_candidates [OF rel] by simp
qed

theorem resolveImportPath_order_witness:
  "startsWith ''./posts.contract'' ''.''
   \<and> \<not> startsWith ''@app/contracts'' ''.''
   \<and> resolveImportPath example_paths (\<lambda>f. f = ''/app/src/posts.contract/index.ts'')
        ''@app/contracts'' ''/app/src/posts.controller.ts'' = None
   \<and> resolveImportPath example_paths (\<lambda>f. f = ''/app/src/posts.contract/index.ts'')
        ''./posts.contract'' ''/app/src/posts.controller.ts''
      = Some ''/app/src/posts.contract/index.ts''"
proof -
  let ?stat = "\<lambda>f. f = ''/app/src/posts.contract/index.ts''"
  let ?from = "''/app/src/posts.controller.ts''"
  let ?r = "''/app/src/posts.contract''"
  have rel: "startsWith ''./posts.contract'' ''.''"
    and abs: "\<not> startsWith ''@app/contracts'' ''.''"
    by (simp_all add: startsWith_def)
  have r: "?r = resolve example_paths (dirname example_paths ?from) ''./posts.contract''"
    by (simp add: example_paths_def)
  have absent: "\<not> ?stat (?r @ ''.ts'')" "\<not> ?stat (?r @ ''.tsx'')"
      "\<not> ?stat (?r @ ''.js'')" "\<not> ?stat (?r @ ''.jsx'')"
    by simp_all
  have present: "?stat (join example_paths ?r ''index.ts'')"
    by (simp add: example_paths_def)
  have "resolveImportPath example_paths ?stat ''@app/contracts'' ?from = None"
    using resolveImportPath_order [of "''@app/contracts''" example_paths ?stat ?from ?r] abs
    by (elim conjE) (erule mp)
  moreover have "resolveImportPath example_paths ?stat ''./posts.contract'' ?from
                 = Some (join example_paths ?r ''index.ts'')"
    using resolveImportPath_order [of "''./posts.contract''" example_paths ?stat ?from ?r]
      rel r absent present
    by (elim conjE) (erule mp, intro conjI)
  moreover have "join example_paths ?r ''index.ts'' = ''/app/src/posts.contract/index.ts''"
    by (simp add: example_paths_def)
  ultimately show ?thesis using rel abs by simp
qed


section \<open>Decorators that are skipped\<close>

lemma walk_reference_base:
  "\<not> is_identifier (base_expression argument) \<Longrightarrow> walk_reference argument propertyPath = None"
  by (induction argument propertyPath rule: walk_reference.induct) simp_all

lemma analyzeDecorator_not_call:
  "\<not> is_call (dec_expression d) \<Longrightarrow> analyzeDecorator d positionAt = None"
  by (cases "dec_expression d") (simp_all add: analyzeDecorator_def)

lemma analyzeDecorator_arity:
  "dec_expression d = CallExpression callee arguments \<Longrightarrow> length arguments \<noteq> 1
   \<Longrightarrow> analyzeDecorator d positionAt = None"
  by (cases arguments; cases "tl arguments") (simp_all add: analyzeDecorator_def)

lemma analyzeDecorator_base:
  "dec_expression d = CallExpression callee [argument]
   \<Longrightarrow> \<not> is_identifier (base_expression argument)
   \<Longrightarrow> analyzeDecorator d positionAt = None"
  by (simp add: analyzeDecorator_def extractContractReference_def walk_reference_base)

lemma processMethodDecorators_skip:
  "analyzeDecorator d positionAt = None
   \<Longrightarrow> processMethodDecorators (before @ Decorator d # after) positionAt found
       = processMethodDecorators (before @ after) positionAt found"
proof (induction before arbitrary: found)
  case Nil
  then show ?case by simp
next
  case (Cons m before)
  then show ?case by (cases m) simp_all
qed

text \<open>
  C8. \<^verbatim>\<open>analyzeDecorator\<close> returns nothing, and cannot fail, for a decorator that is
  not a call, for a call whose number of arguments is not one, and for a call with one
  argument whose property-access chain does not start from an identifier. A decorator
  for which it returns nothing leaves the decorators collected from the other modifiers
  of the declaration as they are without it.
\<close>

theorem analyzeDecorator_skips:
  "(\<not> is_call (dec_expression d) \<longrightarrow> analyzeDecorator d positionAt = None)
   \<and> (dec_expression d = CallExpression callee arguments \<and> length arguments \<noteq> 1
        \<longrightarrow> analyzeDecorator d positionAt = None)
   \<and> (dec_expression d = CallExpression callee [argument]
        \<and> \<not> is_identifier (base_expression argument)
        \<longrightarrow> analyzeDecorator d positionAt = None)
   \<and> (analyzeDecorator d positionAt = None
        \<longrightarrow> processMethodDecorators (before @ Decorator d # after) positionAt found
            = processMethodDecorators (before @ after) positionAt found)"
  using analyzeDecorator_not_call [of d positionAt]
    analyzeDecorator_arity [of d callee arguments positionAt]
    analyzeDecorator_base [of d callee argument positionAt]
    processMethodDecorators_skip [of d positionAt before after found]
  by blast


theorem analyzeDecorator_skips_witness:
  "\<not> is_call (Identifier ''Injectable'')
   \<and> analyzeDecorator \<lparr>dec_expression = Identifier ''Injectable'', dec_start = 0, dec_end = 11\<rparr>
        (\<lambda>offset. \<lparr>line = 0, character = offset\<rparr>) = None
   \<and> analyzeDecorator
        \<lparr>dec_expression = CallExpression (Identifier ''TsRestHandler'') [],
         dec_start = 0, dec_end = 16\<rparr>
        (\<lambda>offset. \<lparr>line = 0, character = offset\<rparr>) = None
   \<and> \<not> is_identifier (base_expression
          (PropertyAccessExpression (CallExpression (Identifier ''getContract'') []) ''createPost''))
   \<and> analyzeDecorator
        \<lparr>dec_expression = CallExpression (Identifier ''TsRestHandler'')
           [PropertyAccessExpression (CallExpression (Identifier ''getContract'') []) ''createPost''],
         dec_start = 0, dec_end = 42\<rparr>
        (\<lambda>offset. \<lparr>line = 0, character = offset\<rparr>) = None
   \<and> processMethodDecorators
        [Decorator \<lparr>dec_expression = CallExpression (Identifier ''TsRestHandler'')
             [PropertyAccessExpression (CallExpression (Identifier ''getContract'') []) ''createPost''],
           dec_start = 0, dec_end = 42\<rparr>,
         Decorator \<lparr>dec_expression = CallExpression (Identifier ''TsRestHandler'')
             [PropertyAccessExpression (Identifier ''c'') ''createPost''],
           dec_start = 43, dec_end = 70\<rparr>]
        (\<lambda>offset. \<lparr>line = 0, character = offset\<rparr>) []
      = [\<lparr>info_position = \<lparr>line = 0, character = 43\<rparr>, info_line = 0,
          contractReference = ''c'', contractPropertyPath = [''createPost''],
          info_range = (\<lparr>line = 0, character = 43\<rparr>, \<lparr>line = 0, character = 70\<rparr>)\<rparr>]"
proof -
  let ?pos = "\<lambda>offset. \<lparr>line = 0, character = offset\<rparr>"
  let ?plain = "\<lparr>dec_expression = Identifier ''Injectable'', dec_start = 0, dec_end = 11\<rparr>"
  let ?empty = "\<lparr>dec_expression = CallExpression (Identifier ''TsRestHandler'') [],
                 dec_start = 0, dec_end = 16\<rparr>"
  let ?arg = "PropertyAccessExpression (CallExpression (Identifier ''getContract'') []) ''createPost''"
  let ?called = "\<lparr>dec_expression = CallExpression (Identifier ''TsRestHandler'') [?arg],
                  dec_start = 0, dec_end = 42\<rparr>"
  let ?good = "\<lparr>dec_expression = CallExpression (Identifier ''TsRestHandler'')
                   [PropertyAccessExpression (Identifier ''c'') ''createPost''],
                 dec_start = 43, dec_end = 70\<rparr>"
  have h1: "\<not> is_call (dec_expression ?plain)" by simp
  have h2: "dec_expression ?empty = CallExpression (Identifier ''TsRestHandler'') []
            \<and> length ([] :: expression list) \<noteq> 1" by simp
  have h3: "dec_expression ?called = CallExpression (Identifier ''TsRestHandler'') [?arg]
            \<and> \<not> is_identifier (base_expression ?arg)" by simp
  have 1: "analyzeDecorator ?plain ?pos = None"
    using analyzeDecorator_skips [of ?plain ?pos] h1 by blast
  have 2: "analyzeDecorator ?empty ?pos = None"
    using analyzeDecorator_skips [of ?empty ?pos "Identifier ''TsRestHandler''" "[]"] h2
    by blast
  have 3: "analyzeDecorator ?called ?pos = None"
    using analyzeDecorator_skips [of ?called ?pos _ _ ?arg] h3
    by blast
  have 4: "processMethodDecorators ([] @ Decorator ?called # [Decorator ?good]) ?pos []
           = processMethodDecorators ([] @ [Decorator ?good]) ?pos []"
    using analyzeDecorator_skips [of ?called ?pos _ _ _ "[]" "[Decorator ?good]" "[]"] 3
    by blast
  have 5: "processMethodDecorators [Decorator ?good] ?pos []
      = [\<lparr>info_position = \<lparr>line = 0, character = 43\<rparr>, info_line = 0,
          contractReference = ''c'', contractPropertyPath = [''createPost''],
          info_range = (\<lparr>line = 0, character = 43\<rparr>, \<lparr>line = 0, character = 70\<rparr>)\<rparr>]"
    by (simp add: analyzeDecorator_def extractContractReference_def)
  show ?thesis using h1 h3 1 2 3 4 5 by simp
qed


section \<open>Lookups after writes\<close>

lemma map_of_set_entry: "map_of (set_entry k v t) = (map_of t)(k \<mapsto> v)"
  by (induction t) (auto simp: fun_eq_iff)

lemma map_of_foldl_set_entry:
  "map_of (foldl (\<lambda>obj (k, v). set_entry k v obj) t es) k
   = (case map_of (rev es) k of Some v \<Rightarrow> Some v | None \<Rightarrow> map_of t k)"
proof (induction es arbitrary: t)
  case Nil
  then show ?case by simp
next
  case (Cons e es)
  obtain k' v' where e: "e = (k', v')" by (cases e)
  show ?case
    by (simp add: Cons.IH e map_of_set_entry map_add_def split: option.split)
qed

lemma keys_set_entry:
  "map fst (set_entry k v t) = (if k \<in> set (map fst t) then map fst t else map fst t @ [k])"
  by (induction t) force+

lemma key_set_set_entry: "fst ` set (set_entry k v t) = insert k (fst ` set t)"
proof -
  have "set (map fst (set_entry k v t)) = insert k (set (map fst t))"
    unfolding keys_set_entry by auto
  then show ?thesis by simp
qed

lemma distinct_set_entry: "distinct (map fst t) \<Longrightarrow> distinct (map fst (set_entry k v t))"
  by (simp add: keys_set_entry)

text \<open>Objects with pairwise different own keys; the evaluator builds no others.\<close>

lemma set_prop_distinct:
  "distinct (map fst (own_properties obj)) \<Longrightarrow> distinct (map fst (own_properties (set_prop obj k v)))"
  by (cases obj) (simp_all add: distinct_set_entry)

lemma set_prop_object: "is_object obj \<Longrightarrow> obj \<noteq> JObjectPrototype \<Longrightarrow> \<exists>own proto. set_prop obj k v = JObject own proto"
  by (cases obj) simp_all

lemma distinct_extractProperties:
  "distinct (map fst (own_properties obj))
   \<Longrightarrow> distinct (map fst (own_properties (extractProperties ps obj)))"
proof (induction ps arbitrary: obj)
  case Nil
  then show ?case by simp
next
  case (Cons p ps)
  show ?case
  proof (cases p)
    case (PropertyAssignment n e)
    then show ?thesis
      using Cons.prems by (auto intro!: Cons.IH set_prop_distinct split: option.split)
  next
    case (MethodDeclaration n)
    then show ?thesis
      using Cons.prems by (auto intro!: Cons.IH set_prop_distinct split: option.split)
  next
    case OtherElement
    then show ?thesis using Cons.prems by (simp add: Cons.IH)
  qed
qed

lemma extractProperties_object:
  "\<exists>own' proto'. extractProperties ps (JObject own proto) = JObject own' proto'"
proof (induction ps arbitrary: own proto)
  case Nil
  then show ?case by simp
next
  case (Cons p ps)
  have step: "\<exists>own' proto'. set_prop (JObject own proto) k v = JObject own' proto'" for k v
    by simp
  show ?case
  proof (cases p)
    case (PropertyAssignment n e)
    show ?thesis
    proof (cases "usable_key (getPropertyName n)")
      case None
      with PropertyAssignment Cons.IH show ?thesis by simp
    next
      case (Some key)
      obtain own' proto' where "set_prop (JObject own proto) key (extractObjectLiteral e)
                                = JObject own' proto'"
        using step by blast
      with PropertyAssignment Some Cons.IH [of own' proto'] show ?thesis by simp
    qed
  next
    case (MethodDeclaration n)
    show ?thesis
    proof (cases "usable_key (getPropertyName n)")
      case None
      with MethodDeclaration Cons.IH show ?thesis by simp
    next
      case (Some key)
      obtain own' proto' where "set_prop (JObject own proto) key
                                  (new_object [(''__method'', JBoolean True)])
                                = JObject own' proto'"
        using step by blast
      with MethodDeclaration Some Cons.IH [of own' proto'] show ?thesis by simp
    qed
  next
    case OtherElement
    with Cons.IH show ?thesis by simp
  qed
qed

lemma set_object_entries: "set (object_entries kvs) = set kvs"
  by (auto simp: object_entries_def)

lemma distinct_object_entries:
  assumes "distinct (map fst kvs)"
  shows "distinct (map fst (object_entries kvs))"
proof -
  have inj: "inj_on fst (set kvs)" and d: "distinct kvs"
    using assms by (simp_all add: distinct_map)
  have "distinct (object_entries kvs)"
    using d by (auto simp: object_entries_def)
  moreover have "inj_on fst (set (object_entries kvs))"
    using inj by (simp add: set_object_entries)
  ultimately show ?thesis by (simp add: distinct_map)
qed

lemma map_of_functional:
  assumes "distinct (map fst kvs)" and "set es = set kvs"
  shows "map_of es k = map_of kvs k"
proof (cases "map_of kvs k")
  case None
  then have "k \<notin> fst ` set es" using assms(2) by (simp add: map_of_eq_None_iff)
  then have "map_of es k = None" by (simp add: map_of_eq_None_iff)
  with None show ?thesis by simp
next
  case (Some v)
  then have in_kvs: "(k, v) \<in> set kvs" by (rule map_of_SomeD)
  obtain v' where v': "map_of es k = Some v'"
    using in_kvs assms(2) by (cases "map_of es k") (force simp: map_of_eq_None_iff)+
  then have "(k, v') \<in> set kvs" using assms(2) map_of_SomeD by fastforce
  with in_kvs assms(1) have "v' = v" by (meson eq_key_imp_eq_value)
  with v' Some show ?thesis by simp
qed

text \<open>A run of writes without \<^verbatim>\<open>__proto__\<close> changes the own properties only.\<close>

lemma foldl_set_prop_plain:
  "''__proto__'' \<notin> fst ` set es
   \<Longrightarrow> foldl (\<lambda>obj (k, v). set_prop obj k v) (JObject own proto) es
       = JObject (foldl (\<lambda>t (k, v). set_entry k v t) own es) proto"
  by (induction es arbitrary: own) auto

text \<open>
  A run of writes with different keys to an object that has no own \<^verbatim>\<open>__proto__\<close> and
  reaches the setter: the own properties are written as by the run without
  \<^verbatim>\<open>__proto__\<close>.
\<close>

lemma foldl_set_prop:
  assumes "distinct (map fst es)" and "''__proto__'' \<notin> fst ` set own"
    and "reaches_setter proto"
  shows "\<exists>proto'. foldl (\<lambda>obj (k, v). set_prop obj k v) (JObject own proto) es
           = JObject (foldl (\<lambda>t (k, v). set_entry k v t) own
                        (filter (\<lambda>(k, v). k \<noteq> ''__proto__'') es)) proto'"
  using assms
proof (induction es arbitrary: own)
  case Nil
  then show ?case by simp
next
  case (Cons e es)
  obtain k v where e: "e = (k, v)" by (cases e)
  show ?case
  proof (cases "k = ''__proto__''")
    case True
    then have rest: "''__proto__'' \<notin> fst ` set es"
      using Cons.prems(1) e by auto
    then have same: "filter (\<lambda>(k, v). k \<noteq> ''__proto__'') es = es"
      by (force simp: filter_id_conv)
    obtain proto' where "set_prop (JObject own proto) k v = JObject own proto'"
      using True Cons.prems(2,3) by (cases "object_or_null v") simp_all
    then show ?thesis
      using True e same foldl_set_prop_plain [OF rest, of own proto'] by auto
  next
    case False
    have "''__proto__'' \<notin> fst ` set (set_entry k v own)"
      using False Cons.prems(2) by (simp add: key_set_set_entry)
    from Cons.IH [OF _ this Cons.prems(3)] Cons.prems(1) False e show ?thesis by simp
  qed
qed

lemma map_of_filter_key:
  "k \<noteq> x \<Longrightarrow> map_of (filter (\<lambda>(k, v). k \<noteq> x) es) k = map_of es k"
  by (induction es) auto

lemma own_after_assign:
  assumes "distinct (map fst kvs)" and "''__proto__'' \<notin> fst ` set own"
    and "reaches_setter proto"
  shows "\<exists>own' proto'. object_assign (JObject own proto) (JObject kvs p) = JObject own' proto'
           \<and> (\<forall>k. map_of own' k
                 = (if k = ''__proto__'' then None
                    else case map_of kvs k of Some v \<Rightarrow> Some v | None \<Rightarrow> map_of own k))"
proof -
  let ?es = "object_entries kvs"
  let ?fs = "filter (\<lambda>(k, v). k \<noteq> ''__proto__'') ?es"
  let ?own = "foldl (\<lambda>t (k, v). set_entry k v t) own ?fs"
  have d: "distinct (map fst ?es)" using assms(1) by (rule distinct_object_entries)
  obtain proto' where r: "object_assign (JObject own proto) (JObject kvs p) = JObject ?own proto'"
    using foldl_set_prop [OF d assms(2,3)] by (auto simp: object_assign_def)
  have "map_of ?own k
        = (if k = ''__proto__'' then None
           else case map_of kvs k of Some v \<Rightarrow> Some v | None \<Rightarrow> map_of own k)" for k
  proof (cases "k = ''__proto__''")
    case True
    have "map_of (rev ?fs) ''__proto__'' = None"
      by (auto simp: map_of_eq_None_iff)
    moreover have "map_of own ''__proto__'' = None"
      using assms(2) by (simp add: map_of_eq_None_iff)
    ultimately show ?thesis using True by (simp add: map_of_foldl_set_entry)
  next
    case False
    have "map_of (rev ?fs) k = map_of (filter (\<lambda>(k, v). k \<noteq> ''__proto__'') (rev ?es)) k"
      by (simp add: rev_filter)
    also have "\<dots> = map_of (rev ?es) k" using False by (rule map_of_filter_key)
    also have "\<dots> = map_of kvs k"
      using assms(1) by (rule map_of_functional) (simp add: set_object_entries)
    finally show ?thesis using False by (simp add: map_of_foldl_set_entry)
  qed
  with r show ?thesis by blast
qed

lemma http_method_not_router:
  "toLowerCase verb \<in> set httpMethods \<Longrightarrow> verb \<noteq> ''router''"
  by (auto simp: toLowerCase_def httpMethods_def)

lemma set_path_arg_object:
  "\<exists>own. set_path_arg pathArg (method_route m) = JObject own JObjectPrototype
         \<and> ''__proto__'' \<notin> fst ` set own"
proof (cases "\<exists>t. pathArg = StringLiteral t")
  case True
  then obtain t where "pathArg = StringLiteral t" by blast
  then show ?thesis by (simp add: method_route_def new_object_def)
next
  case False
  then have "set_path_arg pathArg (method_route m) = method_route m"
    by (cases pathArg) simp_all
  then show ?thesis by (simp add: method_route_def new_object_def)
qed

text \<open>
  C10. In the value of an HTTP-method call with an object literal as second argument,
  every own property of the options object is an own property of the result with the
  option's value, and every other own property is as the verb and the first argument
  set it: the options are merged last. So a \<^verbatim>\<open>method\<close> or \<^verbatim>\<open>path\<close> key among the
  options replaces the uppercased verb and the string-literal path, also for a read of
  the property. (A write to \<^verbatim>\<open>__proto__\<close> creates no own property.)
\<close>

theorem method_call_options_override:
  assumes "toLowerCase verb \<in> set httpMethods"
  shows "map_of (own_properties (extractObjectLiteral
            (CallExpression (PropertyAccessExpression b verb)
               (pathArg # ObjectLiteralExpression props # rest)))) k
         = (if k = ''__proto__'' then None
            else case map_of (own_properties (extractObjectLiteral (ObjectLiteralExpression props))) k of
                   Some v \<Rightarrow> Some v
                 | None \<Rightarrow> map_of (own_properties
                              (set_path_arg pathArg (method_route (toUpperCase verb)))) k)
    \<and> (k \<noteq> ''__proto__''
         \<and> map_of (own_properties (extractObjectLiteral (ObjectLiteralExpression props))) k = Some v
        \<longrightarrow> get_prop (extractObjectLiteral
               (CallExpression (PropertyAccessExpression b verb)
                  (pathArg # ObjectLiteralExpression props # rest))) k = Some v)"
proof -
  let ?options = "extractObjectLiteral (ObjectLiteralExpression props)"
  let ?route = "set_path_arg pathArg (method_route (toUpperCase verb))"
  let ?result = "extractObjectLiteral (CallExpression (PropertyAccessExpression b verb)
                   (pathArg # ObjectLiteralExpression props # rest))"
  obtain kvs p where options: "?options = JObject kvs p"
    using extractProperties_object [of props "[]" JObjectPrototype]
    by (auto simp: new_object_def)
  have options': "extractProperties props (new_object []) = JObject kvs p"
    using options by simp
  have "distinct (map fst (own_properties (extractProperties props (new_object []))))"
    by (rule distinct_extractProperties) (simp add: new_object_def)
  then have d: "distinct (map fst kvs)" by (simp add: options')
  obtain own where route: "?route = JObject own JObjectPrototype"
    and own: "''__proto__'' \<notin> fst ` set own"
    using set_path_arg_object by blast
  have result: "?result = object_assign ?route ?options"
    using assms http_method_not_router [OF assms]
    by (simp add: assign_if_truthy_def options')
  obtain own' proto' where r: "?result = JObject own' proto'"
    and lookup: "\<And>k. map_of own' k
                 = (if k = ''__proto__'' then None
                    else case map_of kvs k of Some v \<Rightarrow> Some v | None \<Rightarrow> map_of own k)"
    using own_after_assign [OF d own, of JObjectPrototype p] unfolding result route options
    by auto
  have 1: "map_of (own_properties ?result) k
           = (if k = ''__proto__'' then None
              else case map_of (own_properties ?options) k of
                     Some v \<Rightarrow> Some v
                   | None \<Rightarrow> map_of (own_properties ?route) k)"
    unfolding r options route using lookup [of k] by (simp split: option.split)
  have 2: "get_prop ?result k = Some v"
    if "k \<noteq> ''__proto__'' \<and> map_of (own_properties ?options) k = Some v"
    using that lookup [of k] unfolding r options by (simp add: get_prop_def)
  from 1 2 show ?thesis by blast
qed

theorem method_call_options_override_witness:
  "toLowerCase ''post'' \<in> set httpMethods
   \<and> map_of (own_properties (extractObjectLiteral
        (CallExpression (PropertyAccessExpression (Identifier ''c'') ''post'')
          [StringLiteral ''/posts'',
           ObjectLiteralExpression
             [PropertyAssignment (IdentifierName ''method'') (StringLiteral ''get''),
              PropertyAssignment (IdentifierName ''path'') (StringLiteral ''/other'')]])))
        ''method'' = Some (JString ''get'')
   \<and> get_prop (extractObjectLiteral
        (CallExpression (PropertyAccessExpression (Identifier ''c'') ''post'')
          [StringLiteral ''/posts'',
           ObjectLiteralExpression
             [PropertyAssignment (IdentifierName ''method'') (StringLiteral ''get''),
              PropertyAssignment (IdentifierName ''path'') (StringLiteral ''/other'')]]))
        ''path'' = Some (JString ''/other'')"
proof -
  let ?props = "[PropertyAssignment (IdentifierName ''method'') (StringLiteral ''get''),
                 PropertyAssignment (IdentifierName ''path'') (StringLiteral ''/other'')]"
  have verb: "toLowerCase ''post'' \<in> set httpMethods"
    by (simp add: toLowerCase_def httpMethods_def)
  have opts: "extractObjectLiteral (ObjectLiteralExpression ?props)
              = JObject [(''method'', JString ''get''), (''path'', JString ''/other'')]
                  JObjectPrototype"
    by (simp add: usable_key_def new_object_def)
  have m: "''method'' \<noteq> ''__proto__''" and p: "''path'' \<noteq> ''__proto__''" by simp_all
  show ?thesis
    using verb
      method_call_options_override [OF verb, of "Identifier ''c''" "StringLiteral ''/posts''"
        ?props "[]" "''method''"]
      method_call_options_override [OF verb, of "Identifier ''c''" "StringLiteral ''/posts''"
        ?props "[]" "''path''" "JString ''/other''"]
    unfolding opts by simp
qed

section \<open>Writes to the export table\<close>

lemma processDeclaration_writes:
  "processDeclaration isExported count d exports
   = foldl (\<lambda>obj (k, v). set_entry k v obj) exports (writes_of isExported count d)"
  by (auto simp: processDeclaration_def writes_of_def binding_of_def Let_def
      split: binding_name.split option.split)

lemma foldl_processDeclaration:
  "foldl (\<lambda>ex d. processDeclaration isExported count d ex) exports ds
   = foldl (\<lambda>obj (k, v). set_entry k v obj) exports
       (concat (map (writes_of isExported count) ds))"
  by (induction ds arbitrary: exports) (simp_all add: processDeclaration_writes)

lemma processVariableStatement_writes:
  "processVariableStatement isExported declarations exports
   = foldl (\<lambda>obj (k, v). set_entry k v obj) exports (writes_spec isExported declarations)"
  by (simp add: processVariableStatement_def writes_spec_def foldl_processDeclaration)

lemma processExportAssignment_writes:
  "processExportAssignment e exports
   = foldl (\<lambda>obj (k, v). set_entry k v obj) exports
       (if truthy (extractObjectLiteral e) then [(''default'', extractObjectLiteral e)] else [])"
  by (simp add: processExportAssignment_def Let_def)

lemma visitor_writes:
  "visitor n exports = foldl (\<lambda>obj (k, v). set_entry k v obj) exports (node_writes n)"
  "visit_children ns exports = foldl (\<lambda>obj (k, v). set_entry k v obj) exports (file_writes ns)"
proof (induction n exports and ns exports rule: visitor_visit_children.induct)
  case (1 isExported declarations children exports)
  then show ?case by (simp add: processVariableStatement_writes)
next
  case (2 e children exports)
  then show ?case by (simp add: processExportAssignment_writes del: foldl_Cons)
next
  case (3 children exports)
  then show ?case by simp
next
  case (4 exports)
  then show ?case by simp
next
  case (5 n ns exports)
  then show ?case by simp
qed

text \<open>
  C7, as the code has it. The export table of a file is the result of the writes of
  \<open>file_writes\<close>, made in source order to the empty table, so under each name it holds
  the value of the last write to that name. The writes are: for every declaration of a
  variable statement that is named by an identifier and whose initializer has a truthy
  value, the value under the name, and under \<^verbatim>\<open>default\<close> too exactly when the statement
  is exported and declares one binding; for every export assignment with a truthy value,
  the value under \<^verbatim>\<open>default\<close>.
\<close>

theorem export_table_writes:
  "extractExports file = foldl (\<lambda>table (k, v). set_entry k v table) [] (file_writes file)
   \<and> map_of (extractExports file) k = map_of (rev (file_writes file)) k"
proof -
  have 1: "extractExports file
           = foldl (\<lambda>table (k, v). set_entry k v table) [] (file_writes file)"
    by (simp add: extractExports_def visitor_writes)
  have "map_of (extractExports file) k = map_of (rev (file_writes file)) k"
    unfolding 1 by (simp add: map_of_foldl_set_entry split: option.split)
  with 1 show ?thesis by simp
qed

text \<open>
  The statement of C7 with "not \<^verbatim>\<open>Null\<close>" fails: \<^verbatim>\<open>export const enabled = false\<close>
  evaluates to the boolean \<^verbatim>\<open>false\<close>, which is not \<^verbatim>\<open>null\<close>, and the table stays empty.
\<close>

theorem falsy_binding_not_stored:
  "extractObjectLiteral FalseKeyword \<noteq> JNull
   \<and> extractExports [VariableStatement True
        [\<lparr>decl_name = BindingIdentifier ''enabled'', decl_initializer = Some FalseKeyword\<rparr>] []]
     = []"
  by (simp add: extractExports_def processVariableStatement_def processDeclaration_def)

section \<open>The full path of a route\<close>

lemma combinePaths_truthy: "combinePaths a b = Inr f \<Longrightarrow> truthy f"
  by (auto simp: combinePaths_def falsy_def Let_def normalize_slash_nonempty
      split: if_splits jsval.splits)

lemma extractRouteInfo_fullPath:
  "extractRouteInfo exports propertyPath importInfo = Some r
   \<Longrightarrow> combinePaths (findPathPrefix exports propertyPath) (path r) = Inr (fullPath r)"
  by (auto simp: extractRouteInfo_def Let_def split: if_splits sum.splits option.splits)

text \<open>
  What holds of the full path of every returned route: it is truthy, so never the empty
  string; when the prefix found and the path of the route are strings (the empty string
  when nothing was found), it is their composition, a non-empty string; when both are
  empty it is \<^verbatim>\<open>/\<close>.
\<close>

lemma fullPath_of_strings:
  assumes "extractRouteInfo exports propertyPath importInfo = Some r"
  shows "truthy (fullPath r)
    \<and> (\<forall>p q. findPathPrefix exports propertyPath = JString p \<and> path r = JString q
          \<longrightarrow> fullPath r = JString (combinePaths_spec p q) \<and> combinePaths_spec p q \<noteq> [])
    \<and> (findPathPrefix exports propertyPath = JString [] \<and> path r = JString []
          \<longrightarrow> fullPath r = JString ''/'')"
proof -
  have c: "combinePaths (findPathPrefix exports propertyPath) (path r) = Inr (fullPath r)"
    using assms by (rule extractRouteInfo_fullPath)
  then have t: "truthy (fullPath r)" by (rule combinePaths_truthy)
  have s: "fullPath r = JString (combinePaths_spec p q) \<and> combinePaths_spec p q \<noteq> []"
    if "findPathPrefix exports propertyPath = JString p \<and> path r = JString q" for p q
  proof -
    have "fullPath r = JString (combinePaths_spec p q)"
      using c that by (simp add: combinePaths_strings)
    with t show ?thesis by auto
  qed
  have "fullPath r = JString ''/''"
    if "findPathPrefix exports propertyPath = JString [] \<and> path r = JString []"
    using s [OF that] by (simp add: combinePaths_spec_def)
  with t s show ?thesis by blast
qed

lemma numeric_path_alone:
  "extractRouteInfo (extractExports numeric_path_file) [''getPost''] default_import
   = Some \<lparr>method = JString ''GET'', path = JNumber five, summary = None,
            fullPath = JNumber five\<rparr>"
  by code_simp

lemma numeric_path_with_prefix:
  "extractRouteInfo (extractExports numeric_path_router_file) [''getPost''] default_import = None"
  by code_simp

text \<open>
  C5. For the contract \<^verbatim>\<open>const contract = { getPost: { method: 'GET', path: 5 } }\<close> the
  route is returned with the number 5 as its full path, which is not a string. With the
  same route in a router with the prefix \<^verbatim>\<open>/posts\<close>, \<^verbatim>\<open>combinePaths\<close> throws on the
  number and no route is returned.
\<close>

theorem numeric_path_full_path:
  "extractRouteInfo (extractExports numeric_path_file) [''getPost''] default_import
     = Some \<lparr>method = JString ''GET'', path = JNumber five, summary = None,
              fullPath = JNumber five\<rparr>
   \<and> extractRouteInfo (extractExports numeric_path_router_file) [''getPost''] default_import
     = None"
  using numeric_path_alone numeric_path_with_prefix by simp

section \<open>The order of the lookup strategies\<close>

lemma find_in_export_found:
  "truthy (in_export exports name p) \<Longrightarrow> find_in_export exports name p b = in_export exports name p"
proof (cases "map_of exports name")
  assume t: "truthy (in_export exports name p)"
  case None
  with t show ?thesis by (simp add: in_export_def)
next
  assume t: "truthy (in_export exports name p)"
  case (Some v)
  have "truthy v"
  proof (rule ccontr)
    assume "\<not> truthy v"
    then have "\<not> is_object v" by (cases v) simp_all
    then have "findRouteInContract v p = JNull" by (cases p) simp_all
    with t Some show False by (simp add: in_export_def)
  qed
  with Some show ?thesis by (simp add: in_export_def find_in_export_def)
qed

lemma find_in_export_missing:
  "\<not> truthy (in_export exports name p) \<Longrightarrow> falsy b \<Longrightarrow> falsy (find_in_export exports name p b)"
  by (auto simp: in_export_def find_in_export_def falsy_def split: option.splits)

lemma try_all_find:
  "falsy b \<Longrightarrow>
   List.find truthy (map (\<lambda>(name, v). findRouteInContract v p) exports)
   = (if truthy (try_all exports p b) then Some (try_all exports p b) else None)"
proof (induction exports arbitrary: b)
  case Nil
  then show ?case by (simp add: falsy_def)
next
  case (Cons e exports)
  obtain name v where e: "e = (name, v)" by (cases e)
  show ?case
  proof (cases "truthy (findRouteInContract v p)")
    case True
    then show ?thesis by (simp add: e)
  next
    case False
    then have "falsy (findRouteInContract v p)" by (simp add: falsy_def)
    from Cons.IH [OF this] False show ?thesis by (simp add: e)
  qed
qed

text \<open>
  Without an export name, the base contract object is the first truthy result in the
  list of strategies, and there is no route when none is truthy.
\<close>

lemma baseContract_of_order:
  assumes "has_exportName importInfo = None"
  shows "List.find truthy (lookup_strategies exports p)
         = (if truthy (baseContract_of exports p importInfo)
            then Some (baseContract_of exports p importInfo) else None)"
proof (cases "truthy (findContractByPath exports p)")
  case True
  then show ?thesis using assms by (simp add: baseContract_of_def lookup_strategies_def)
next
  case b1: False
  then have f1: "falsy (findContractByPath exports p)" by (simp add: falsy_def)
  let ?b2 = "find_in_export exports ''default'' p (findContractByPath exports p)"
  show ?thesis
  proof (cases "truthy (in_export exports ''default'' p)")
    case True
    then have "?b2 = in_export exports ''default'' p" by (rule find_in_export_found)
    with True b1 assms show ?thesis
      by (simp add: baseContract_of_def lookup_strategies_def Let_def)
  next
    case d: False
    then have f2: "falsy ?b2" using f1 by (rule find_in_export_missing)
    let ?b3 = "find_in_export exports ''contract'' p ?b2"
    show ?thesis
    proof (cases "truthy (in_export exports ''contract'' p)")
      case True
      then have "?b3 = in_export exports ''contract'' p" by (rule find_in_export_found)
      with True b1 d f2 assms show ?thesis
        by (simp add: baseContract_of_def lookup_strategies_def Let_def falsy_def)
    next
      case c: False
      then have f3: "falsy ?b3" using f2 by (rule find_in_export_missing)
      have "baseContract_of exports p importInfo = try_all exports p ?b3"
        using assms b1 f2 f3 by (simp add: baseContract_of_def Let_def falsy_def)
      with try_all_find [OF f3, of p exports] b1 d c show ?thesis
        by (simp add: lookup_strategies_def)
    qed
  qed
qed

lemma no_success_no_route:
  assumes "has_exportName importInfo = None"
    and "List.find truthy (lookup_strategies exports p) = None"
  shows "extractRouteInfo exports p importInfo = None"
proof -
  have "\<not> truthy (baseContract_of exports p importInfo)"
    using baseContract_of_order [OF assms(1), of exports p] assms(2) by (simp split: if_splits)
  then show ?thesis by (simp add: extractRouteInfo_def falsy_def)
qed

lemma exported_siblings_table:
  "map fst (extractExports (siblings_file True)) = [''posts'', ''default'', ''users'']"
  by code_simp

lemma exported_siblings_default:
  "map_of (extractExports (siblings_file True)) ''default''
   = map_of (extractExports (siblings_file True)) ''users''"
  by code_simp

lemma exported_siblings_base:
  "Some (baseContract_of (extractExports (siblings_file True)) [''getAll''] default_import)
   = map_of (extractExports (siblings_file True)) ''users''"
  by code_simp

lemma exported_siblings_unresolved:
  "extractRouteInfo (extractExports (siblings_file True)) [''getAll''] default_import = None"
  by code_simp

lemma plain_siblings_resolved:
  "extractRouteInfo (extractExports (siblings_file False)) [''getAll''] default_import
   = Some \<lparr>method = JString ''GET'', path = JString ''/posts'', summary = None,
            fullPath = JString ''/posts''\<rparr>"
  by code_simp

text \<open>
  C3. For two exported siblings \<^verbatim>\<open>export const posts = { getAll: ... }\<close> and
  \<^verbatim>\<open>export const users = { getAll: ... }\<close> the table has the entries \<^verbatim>\<open>posts\<close>,
  \<^verbatim>\<open>default\<close> and \<^verbatim>\<open>users\<close>, with the object of \<^verbatim>\<open>users\<close> under \<^verbatim>\<open>default\<close>. For the path
  \<^verbatim>\<open>getAll\<close> the first strategy returns that whole object, and no route is returned:
  neither sibling is resolved. Without \<^verbatim>\<open>export\<close> the route of the first sibling is
  returned.
\<close>

theorem exported_siblings_lookup:
  "map fst (extractExports (siblings_file True)) = [''posts'', ''default'', ''users'']
   \<and> map_of (extractExports (siblings_file True)) ''default''
     = map_of (extractExports (siblings_file True)) ''users''
   \<and> Some (baseContract_of (extractExports (siblings_file True)) [''getAll''] default_import)
     = map_of (extractExports (siblings_file True)) ''users''
   \<and> extractRouteInfo (extractExports (siblings_file True)) [''getAll''] default_import = None
   \<and> extractRouteInfo (extractExports (siblings_file False)) [''getAll''] default_import
     = Some \<lparr>method = JString ''GET'', path = JString ''/posts'', summary = None,
              fullPath = JString ''/posts''\<rparr>"
  using exported_siblings_table exported_siblings_default exported_siblings_base
    exported_siblings_unresolved plain_siblings_resolved
  by simp

section \<open>The documented round trip\<close>

lemma export_default_unresolved:
  "extractRouteInfo (extractExports export_default_file) [''createPost''] default_import = None"
  by code_simp

lemma export_const_unresolved:
  "extractRouteInfo (extractExports export_const_file) [''createPost''] default_import = None"
  by code_simp

lemma plain_const_resolved:
  "extractRouteInfo (extractExports plain_const_file) [''createPost''] default_import
   = Some \<lparr>method = JString ''POST'', path = JString ''/'',
            summary = Some (JString ''Create a new post''), fullPath = JString ''/posts''\<rparr>"
  by code_simp

text \<open>
  C1. For the decorator argument \<^verbatim>\<open>c.createPost\<close> with a default import \<^verbatim>\<open>c\<close>, the
  route \<^verbatim>\<open>POST /posts\<close> is found when the router is bound to a constant that is not
  exported in its declaration. When the file has \<^verbatim>\<open>export default c.router(...)\<close> or
  \<^verbatim>\<open>export const postsContract = c.router(...)\<close>, the table has a \<^verbatim>\<open>default\<close> entry,
  \<^verbatim>\<open>findContractByPath\<close> returns the router itself for the one-segment path, and no route
  is returned.
\<close>

theorem default_export_round_trip:
  "extractRouteInfo (extractExports export_default_file) [''createPost''] default_import = None
   \<and> extractRouteInfo (extractExports export_const_file) [''createPost''] default_import = None
   \<and> extractRouteInfo (extractExports plain_const_file) [''createPost''] default_import
     = Some \<lparr>method = JString ''POST'', path = JString ''/'',
              summary = Some (JString ''Create a new post''), fullPath = JString ''/posts''\<rparr>"
  using export_default_unresolved export_const_unresolved plain_const_resolved by simp

section \<open>The case of the method\<close>

lemma lowercase_method_kept:
  "extractRouteInfo (extractExports lowercase_file) [''createPost''] default_import
   = Some \<lparr>method = JString ''post'', path = JString ''/'', summary = None,
            fullPath = JString ''/''\<rparr>"
  by code_simp

lemma builder_method_upper:
  "extractRouteInfo (extractExports builder_file) [''createPost''] default_import
   = Some \<lparr>method = JString ''POST'', path = JString ''/'', summary = None,
            fullPath = JString ''/''\<rparr>"
  by code_simp

lemma method_default_GET:
  assumes "extractRouteInfo exports p importInfo = Some r"
    and "extractRouteDefinition (baseContract_of exports p importInfo) = Inr (Some d)"
    and "\<not> truthy_prop (def_method d)"
  shows "method r = JString ''GET''"
proof -
  have "method r = js_or_val (def_method d) (JString ''GET'')"
    using assms(1,2)
    by (auto simp: extractRouteInfo_def Let_def split: if_splits sum.splits option.splits)
  with assms(3) show ?thesis
    by (cases "def_method d") (simp_all add: js_or_val_def)
qed

text \<open>
  C2. A route written as an object literal keeps the method as the contract has it:
  \<^verbatim>\<open>{ method: 'post', path: '/' }\<close> gives the method \<^verbatim>\<open>post\<close>. The builder call
  \<^verbatim>\<open>c.post('/')\<close> gives \<^verbatim>\<open>POST\<close>.
\<close>

theorem method_case_kept:
  "extractRouteInfo (extractExports lowercase_file) [''createPost''] default_import
     = Some \<lparr>method = JString ''post'', path = JString ''/'', summary = None,
              fullPath = JString ''/''\<rparr>
   \<and> extractRouteInfo (extractExports builder_file) [''createPost''] default_import
     = Some \<lparr>method = JString ''POST'', path = JString ''/'', summary = None,
              fullPath = JString ''/''\<rparr>"
  using lowercase_method_kept builder_method_upper by simp



end
